theory Spec2Isabelle
  imports Main
begin

section \<open>Python values, mappings and exceptions\<close>

text \<open>
  The adapter in \<^verbatim>\<open>unify.py\<close> moves values of type \<^verbatim>\<open>Any\<close> between dictionaries
  and never computes with them. \<open>pyval\<close> holds the values that can stand in a generation
  option, a provider reply or an exported state. A finite float is its mantissa and binary
  exponent; it is only ever carried along.
\<close>

datatype pyval =
    PNone
  | PBool bool
  | PInt int
  | PFloat int int
  | PStr string
  | PList "pyval list"
  | PDict "(string \<times> pyval) list"

text \<open>
  A \<^verbatim>\<open>Dict[str, Any]\<close> is the list of its items in insertion order. A dictionary
  built by Python never holds a key twice; \<open>distinct (map fst d)\<close> says so where a
  statement needs it.
\<close>

type_synonym dict = "(string \<times> pyval) list"

text \<open>The exceptions that the modelled code paths can raise or pass on.\<close>

datatype error =
    NameError string
  | KeyError string
  | ValueError string
  | ProviderError string

text \<open>\<^verbatim>\<open>d[k] = v\<close>: an existing key keeps its place, a new key goes last.\<close>

fun setitem :: "dict \<Rightarrow> string \<Rightarrow> pyval \<Rightarrow> dict" where
  "setitem [] k v = [(k, v)]"
| "setitem ((k', v') # d) k v =
     (if k' = k then (k, v) # d else (k', v') # setitem d k v)"

text \<open>\<^verbatim>\<open>d[k]\<close> raises \<^verbatim>\<open>KeyError\<close> on a missing key; \<^verbatim>\<open>d.get(k, default)\<close> does not.\<close>

definition getitem :: "dict \<Rightarrow> string \<Rightarrow> error + pyval" where
  "getitem d k = (case map_of d k of None \<Rightarrow> Inl (KeyError k) | Some v \<Rightarrow> Inr v)"

definition get_default :: "dict \<Rightarrow> string \<Rightarrow> pyval \<Rightarrow> pyval" where
  "get_default d k dflt = (case map_of d k of None \<Rightarrow> dflt | Some v \<Rightarrow> v)"

text \<open>
  The dictionary display \<^verbatim>\<open>{**a, **b}\<close>: a new dictionary that receives the items of
  \<open>a\<close> and then those of \<open>b\<close>, each by \<^verbatim>\<open>d[k] = v\<close>.
\<close>

definition unpack_items :: "dict \<Rightarrow> dict \<Rightarrow> dict" where
  "unpack_items items d = fold (\<lambda>(k, v) acc. setitem acc k v) items d"

definition dict_display :: "dict \<Rightarrow> dict \<Rightarrow> dict" where
  "dict_display a b = unpack_items b (unpack_items a [])"

text \<open>
  \<^verbatim>\<open>x or {}\<close> for an \<^verbatim>\<open>Optional[Dict]\<close>: \<^verbatim>\<open>None\<close> and the empty dictionary are
  both falsy and give the fresh empty dictionary.
\<close>

definition or_empty :: "dict option \<Rightarrow> dict" where
  "or_empty x = (case x of None \<Rightarrow> [] | Some d \<Rightarrow> (if d = [] then [] else d))"

section \<open>The provider client\<close>

text \<open>
  Modelled from the spec: the class \<^verbatim>\<open>Unify\<close> of the provider's client library is
  imported by \<^verbatim>\<open>unify.py\<close> and is not part of the sources. Its constructor "builds a
  provider-client handle bound to \<^verbatim>\<open>model_id\<close> and the resolved credential value" and is
  not a failure mode of construction.
\<close>

record Unify =
  bound_model :: string
  bound_api_key :: string

text \<open>
  What \<^verbatim>\<open>client.generate(prompt=..., **options)\<close> answers is outside the adapter: it is
  a parameter of the model, a function from the handle, the prompt and the keyword
  arguments to either the exception raised or the reply mapping.
\<close>

type_synonym provider = "Unify \<Rightarrow> string \<Rightarrow> dict \<Rightarrow> error + dict"

text \<open>
  Every use the adapter makes of the client library is recorded, in order: the constructor
  call with its two arguments, and each \<^verbatim>\<open>generate\<close> call with the prompt and the keyword
  arguments it was given.
\<close>

datatype provider_call =
    Construct string string
  | Generate string dict

section \<open>The component\<close>

text \<open>
  Modelled from the spec: the class \<^verbatim>\<open>Secret\<close> of the framework is imported and is not
  part of the sources. The only constructor the source uses is
  \<^verbatim>\<open>Secret.from_env_var("UNIFY_API_KEY")\<close>; the spec calls the credential "an indirect,
  serializable pointer to a secret value (e.g., read from environment variable X)".
  A credential is therefore the name of an environment variable; credentials of any other
  kind are outside this model.
\<close>

datatype secret = EnvVarSecret string

type_synonym environ = "string \<Rightarrow> string option"

text \<open>
  A streaming callback is a callable object: its import path and its truth value. A
  function is always truthy. An instance of a class that defines \<^verbatim>\<open>__call__\<close> has the
  truth value its \<^verbatim>\<open>__bool__\<close> or \<^verbatim>\<open>__len__\<close> gives it, so a callable list of
  received chunks is falsy while it is empty.
\<close>

datatype callback = Callable (import_path: string) (truthy: bool)

text \<open>
  The truth value of an \<^verbatim>\<open>Optional[Callable]\<close>, as \<^verbatim>\<open>if\<close> and the conditional
  expression test it: \<^verbatim>\<open>None\<close> is falsy.
\<close>

fun is_truthy :: "callback option \<Rightarrow> bool" where
  "is_truthy None = False"
| "is_truthy (Some cb) = truthy cb"

record UnifyGenerator =
  api_key :: secret
  model :: string
  generation_kwargs :: dict
  streaming_callback :: "callback option"
  client :: Unify

definition ALLOWED_PARAMS :: "string list" where
  "ALLOWED_PARAMS = [''max_tokens'', ''temperature'']"

subsection \<open>run\<close>

text \<open>Line 68: the defaults, overlaid with the per-call options.\<close>

definition merged_kwargs :: "UnifyGenerator \<Rightarrow> dict option \<Rightarrow> dict" where
  "merged_kwargs self kw = dict_display (generation_kwargs self) (or_empty kw)"

text \<open>Line 69: the dictionary comprehension keeps the allow-listed items, in order.\<close>

definition filtered_kwargs :: "UnifyGenerator \<Rightarrow> dict option \<Rightarrow> dict" where
  "filtered_kwargs self kw =
     filter (\<lambda>(k, v). k \<in> set ALLOWED_PARAMS) (merged_kwargs self kw)"

text \<open>
  Line 72: \<^verbatim>\<open>{"replies": [response["text"]], "meta": response.get("meta", {})}\<close>.
  The subscription raises \<^verbatim>\<open>KeyError\<close> when the reply has no \<^verbatim>\<open>text\<close>.
\<close>

definition reply_mapping :: "dict \<Rightarrow> error + dict" where
  "reply_mapping response =
     (case getitem response ''text'' of
        Inl e \<Rightarrow> Inl e
      | Inr text \<Rightarrow>
          Inr [(''replies'', PList [text]),
               (''meta'', get_default response ''meta'' (PDict []))])"

text \<open>
  What a call of \<^verbatim>\<open>run\<close> leaves behind: the value returned or the exception raised, the
  component as it is after the call, and the calls made to the provider client.
\<close>

record run_outcome =
  returned :: "error + dict"
  self_after :: UnifyGenerator
  calls :: "provider_call list"

text \<open>
  \<^verbatim>\<open>run\<close>, lines 68 to 72. Lines 68 and 69 bind the local names
  \<^verbatim>\<open>generation_kwargs\<close> and \<^verbatim>\<open>filtered_kwargs\<close> to dictionaries built anew; no
  statement of the body assigns an attribute of \<^verbatim>\<open>self\<close> or updates a stored dictionary
  in place. Line 71 is the only call to the client, outside any \<^verbatim>\<open>try\<close>: its exception
  ends \<^verbatim>\<open>run\<close>.
\<close>

definition run :: "provider \<Rightarrow> UnifyGenerator \<Rightarrow> string \<Rightarrow> dict option \<Rightarrow> run_outcome" where
  "run generate self prompt kw =
     (let filtered = filtered_kwargs self kw
      in \<lparr>returned =
            (case generate (client self) prompt filtered of
               Inl e \<Rightarrow> Inl e
             | Inr response \<Rightarrow> reply_mapping response),
          self_after = self,
          calls = [Generate prompt filtered]\<rparr>)"

subsection \<open>Construction\<close>

text \<open>
  Modelled from the spec: \<^verbatim>\<open>Secret.resolve_value()\<close>, the credential-resolution
  collaborator. "Construction with no credential available (environment variable unset,
  none supplied) fails": an unset variable raises, with the variable's name in the message;
  a set variable yields its value.
\<close>

fun resolve_value :: "environ \<Rightarrow> secret \<Rightarrow> error + string" where
  "resolve_value env (EnvVarSecret name) =
     (case env name of None \<Rightarrow> Inl (ValueError name) | Some v \<Rightarrow> Inr v)"

text \<open>
  Modelled from the spec: the constructor of \<^verbatim>\<open>Unify\<close>, which binds the handle to the
  model identifier and the resolved credential value.
\<close>

definition new_client :: "string \<Rightarrow> string \<Rightarrow> Unify" where
  "new_client m key = \<lparr>bound_model = m, bound_api_key = key\<rparr>"

text \<open>The default values of the parameters of \<^verbatim>\<open>__init__\<close> (lines 18 and 19).\<close>

definition default_api_key :: secret where
  "default_api_key = EnvVarSecret ''UNIFY_API_KEY''"

definition default_model :: string where
  "default_model = ''mistral-7b-instruct-v0.2@fireworks-ai''"

text \<open>
  \<^verbatim>\<open>__init__\<close>, lines 31 to 35. An argument that the caller leaves out is \<open>None\<close> here
  and takes the parameter's default. In line 35 the argument \<^verbatim>\<open>self.api_key.resolve_value()\<close>
  is evaluated before \<^verbatim>\<open>Unify\<close> is called, so an exception there leaves the client
  library untouched. The second component lists the calls made to the client library.
\<close>

definition init ::
  "environ \<Rightarrow> secret option \<Rightarrow> string option \<Rightarrow> callback option \<Rightarrow> dict option \<Rightarrow>
     (error + UnifyGenerator) \<times> provider_call list" where
  "init env api_key_arg model_arg streaming_callback_arg generation_kwargs_arg =
     (let key_ref = (case api_key_arg of None \<Rightarrow> default_api_key | Some s \<Rightarrow> s);
          model_id = (case model_arg of None \<Rightarrow> default_model | Some m \<Rightarrow> m)
      in case resolve_value env key_ref of
           Inl e \<Rightarrow> (Inl e, [])
         | Inr key \<Rightarrow>
             (Inr \<lparr>api_key = key_ref,
                   model = model_id,
                   generation_kwargs = or_empty generation_kwargs_arg,
                   streaming_callback = streaming_callback_arg,
                   client = new_client model_id key\<rparr>,
              [Construct model_id key]))"

subsection \<open>Names bound in the module\<close>

text \<open>
  The names that the module binds: those of its four import statements (lines 1 to 4),
  \<^verbatim>\<open>logger\<close> (line 6) and the class itself (line 9). A name read inside a method is
  looked up here when the method runs; a name that is neither here nor a builtin raises
  \<^verbatim>\<open>NameError\<close>. Neither \<^verbatim>\<open>serialize_callable\<close> nor \<^verbatim>\<open>deserialize_secrets_inplace\<close>
  is a builtin of Python.
\<close>

definition module_globals :: "string list" where
  "module_globals =
     [''Any'', ''Callable'', ''ClassVar'', ''Dict'', ''List'', ''Optional'',
      ''component'', ''default_from_dict'', ''default_to_dict'', ''logging'',
      ''Secret'', ''Unify'', ''logger'', ''UnifyGenerator'']"

definition load_global :: "string \<Rightarrow> error + unit" where
  "load_global name =
     (if name \<in> set module_globals then Inr () else Inl (NameError name))"

subsection \<open>to\_dict and from\_dict\<close>

text \<open>
  Modelled from the spec: \<^verbatim>\<open>Secret.to_dict()\<close>, the credential's "own serializable
  reference form, not its resolved value": the kind of reference and the variable it names.
\<close>

fun secret_to_dict :: "secret \<Rightarrow> dict" where
  "secret_to_dict (EnvVarSecret name) =
     [(''type'', PStr ''env_var''), (''env_vars'', PList [PStr name]), (''strict'', PBool True)]"

text \<open>
  Modelled from the spec: the framework's \<^verbatim>\<open>default_to_dict(obj, **init_parameters)\<close>,
  which nests the keyword arguments "under an \<^verbatim>\<open>init_parameters\<close> key" beside the import
  path of the component's class.
\<close>

definition default_to_dict :: "dict \<Rightarrow> dict" where
  "default_to_dict init_parameters =
     [(''type'', PStr ''unify.UnifyGenerator''), (''init_parameters'', PDict init_parameters)]"

text \<open>
  \<^verbatim>\<open>to_dict\<close>, lines 41 to 48. The conditional expression of line 41,
  \<^verbatim>\<open>serialize_callable(self.streaming_callback) if self.streaming_callback else None\<close>,
  tests the truth value of the callback first. Only for a truthy callback does it read the
  name \<^verbatim>\<open>serialize_callable\<close>, which the module does not bind; the value the call would
  give were the name bound (the callback's import path) is never reached. For \<^verbatim>\<open>None\<close>
  and for a falsy callable alike the expression is \<^verbatim>\<open>None\<close>.
\<close>

definition to_dict :: "UnifyGenerator \<Rightarrow> error + dict" where
  "to_dict self =
     (case (case streaming_callback self of
              None \<Rightarrow> Inr PNone
            | Some cb \<Rightarrow>
                (if truthy cb
                 then (case load_global ''serialize_callable'' of
                         Inl e \<Rightarrow> Inl e
                       | Inr _ \<Rightarrow> Inr (PStr (import_path cb)))
                 else Inr PNone)) of
        Inl e \<Rightarrow> Inl e
      | Inr callback_name \<Rightarrow>
          Inr (default_to_dict
                [(''model'', PStr (model self)),
                 (''streaming_callback'', callback_name),
                 (''generation_kwargs'', PDict (generation_kwargs self)),
                 (''api_key'', PDict (secret_to_dict (api_key self)))]))"

text \<open>
  \<^verbatim>\<open>from_dict\<close>, lines 55 and 56. A call evaluates the called name before its
  arguments, so line 55 reads the name \<^verbatim>\<open>deserialize_secrets_inplace\<close> before it looks
  at \<^verbatim>\<open>data\<close>. The module does not bind that name. What the two calls of the body would
  do with \<^verbatim>\<open>data\<close> were the name bound is the parameter \<open>rest\<close>: every statement below
  holds whatever it is.
\<close>

definition from_dict :: "(dict \<Rightarrow> error + UnifyGenerator) \<Rightarrow> dict \<Rightarrow> error + UnifyGenerator" where
  "from_dict rest data =
     (case load_global ''deserialize_secrets_inplace'' of
        Inl e \<Rightarrow> Inl e
      | Inr _ \<Rightarrow> rest data)"

section \<open>Example inputs\<close>

text \<open>
  The inputs at which the statements below are evaluated: two environments that differ only
  in the value of the credential, the components that \<^verbatim>\<open>UnifyGenerator()\<close> and a
  constructor call with options build there, stub provider clients, and persisted states.
\<close>

definition env_unset :: environ where
  "env_unset = (\<lambda>name. None)"

definition env_with_key :: "string \<Rightarrow> environ" where
  "env_with_key secret_value =
     (\<lambda>name. if name = ''UNIFY_API_KEY'' then Some secret_value else None)"

definition default_generator :: UnifyGenerator where
  "default_generator =
     \<lparr>api_key = EnvVarSecret ''UNIFY_API_KEY'',
      model = ''mistral-7b-instruct-v0.2@fireworks-ai'',
      generation_kwargs = [],
      streaming_callback = None,
      client = \<lparr>bound_model = ''mistral-7b-instruct-v0.2@fireworks-ai'',
                bound_api_key = ''s3cr3t''\<rparr>\<rparr>"

definition tuned_generator :: UnifyGenerator where
  "tuned_generator =
     default_generator
       \<lparr>generation_kwargs := [(''max_tokens'', PInt 5), (''top_p'', PInt 1)]\<rparr>"

definition streaming_generator :: UnifyGenerator where
  "streaming_generator =
     default_generator\<lparr>streaming_callback := Some (Callable ''builtins.print'' True)\<rparr>"

text \<open>
  A component whose callback is an instance of
  \<^verbatim>\<open>class ChunkBuffer(list): __call__ = list.append\<close>, still empty: callable, not
  \<^verbatim>\<open>None\<close>, and falsy.
\<close>

definition buffering_generator :: UnifyGenerator where
  "buffering_generator =
     default_generator\<lparr>streaming_callback := Some (Callable ''sinks.ChunkBuffer'' False)\<rparr>"

definition stub_text_only :: provider where
  "stub_text_only = (\<lambda>handle prompt options. Inr [(''text'', PStr ''hi'')])"

definition stub_with_meta :: provider where
  "stub_with_meta =
     (\<lambda>handle prompt options.
        Inr [(''text'', PStr ''hi''), (''meta'', PDict [(''tokens'', PInt 2)])])"

definition stub_failing :: provider where
  "stub_failing = (\<lambda>handle prompt options. Inl (ProviderError ''503''))"

definition default_state :: dict where
  "default_state =
     [(''type'', PStr ''unify.UnifyGenerator''),
      (''init_parameters'',
       PDict [(''model'', PStr ''mistral-7b-instruct-v0.2@fireworks-ai''),
              (''streaming_callback'', PNone),
              (''generation_kwargs'', PDict []),
              (''api_key'',
               PDict [(''type'', PStr ''env_var''),
                      (''env_vars'', PList [PStr ''UNIFY_API_KEY'']),
                      (''strict'', PBool True)])])]"

definition state_without_api_key :: dict where
  "state_without_api_key =
     [(''type'', PStr ''unify.UnifyGenerator''),
      (''init_parameters'', PDict [(''model'', PStr ''some-model@some-provider'')])]"

section \<open>Mappings: what an overlay and a filter look up\<close>

lemma map_of_setitem: "map_of (setitem d k v) = (map_of d)(k \<mapsto> v)"
  by (induction d k v rule: setitem.induct) (auto simp: fun_eq_iff)

lemma unpack_items_Cons:
  "unpack_items ((k0, v0) # items) d = unpack_items items (setitem d k0 v0)"
  by (simp add: unpack_items_def)

lemma map_of_unpack_items:
  "distinct (map fst items) \<Longrightarrow>
   map_of (unpack_items items d) k =
     (case map_of items k of Some v \<Rightarrow> Some v | None \<Rightarrow> map_of d k)"
proof (induction items arbitrary: d)
  case Nil
  then show ?case by (simp add: unpack_items_def)
next
  case (Cons item items)
  obtain k0 v0 where item: "item = (k0, v0)" by (cases item)
  from Cons.prems item have fresh: "k0 \<notin> fst ` set items" and dist: "distinct (map fst items)"
    by auto
  from fresh have none: "map_of items k0 = None"
    by (simp add: map_of_eq_None_iff)
  have "map_of (unpack_items items (setitem d k0 v0)) k =
          (case map_of ((k0, v0) # items) k of Some v \<Rightarrow> Some v | None \<Rightarrow> map_of d k)"
    using none by (simp add: Cons.IH [OF dist] map_of_setitem split: option.splits)
  then show ?case
    by (simp only: item unpack_items_Cons)
qed

lemma map_of_filter_keys:
  "map_of (filter (\<lambda>(k, v). k \<in> A) d) k = (if k \<in> A then map_of d k else None)"
  by (induction d) auto

lemma or_empty_Some: "or_empty (Some d) = d"
  by (simp add: or_empty_def)





lemma from_dict_raises_NameError:
  "from_dict rest data = Inl (NameError ''deserialize_secrets_inplace'')"
  by (simp add: from_dict_def load_global_def module_globals_def)

section \<open>run: what reaches the provider and what comes back\<close>



text \<open>
  Claim C4. For every prompt, when the provider's reply to the forwarded call is a mapping
  with a \<^verbatim>\<open>text\<close> entry, \<^verbatim>\<open>run\<close> returns the mapping whose \<^verbatim>\<open>replies\<close> is the
  one-element list of that text and whose \<^verbatim>\<open>meta\<close> is the reply's \<^verbatim>\<open>meta\<close> entry, or
  the empty mapping when the reply has none.
\<close>

theorem run_reply_shape:
  assumes "generate (client self) prompt (filtered_kwargs self kw) = Inr response"
    and "map_of response ''text'' = Some text"
  shows "returned (run generate self prompt kw) =
           Inr [(''replies'', PList [text]),
                (''meta'', (case map_of response ''meta'' of
                              Some meta \<Rightarrow> meta
                            | None \<Rightarrow> PDict []))]"
  using assms
  by (simp add: run_def Let_def reply_mapping_def getitem_def get_default_def
      split: option.splits)

theorem run_reply_shape_witness:
  "returned (run stub_text_only default_generator ''hello'' None) =
     Inr [(''replies'', PList [PStr ''hi'']), (''meta'', PDict [])]
   \<and> returned (run stub_with_meta default_generator ''hello'' None) =
     Inr [(''replies'', PList [PStr ''hi'']), (''meta'', PDict [(''tokens'', PInt 2)])]"
proof
  have reply: "stub_text_only (client default_generator) ''hello''
                 (filtered_kwargs default_generator None) = Inr [(''text'', PStr ''hi'')]"
    by (simp add: stub_text_only_def)
  have reply_text: "map_of [(''text'', PStr ''hi'')] ''text'' = Some (PStr ''hi'')"
    by simp
  from run_reply_shape [of stub_text_only default_generator "''hello''" None, OF reply reply_text]
  show "returned (run stub_text_only default_generator ''hello'' None) =
     Inr [(''replies'', PList [PStr ''hi'']), (''meta'', PDict [])]"
    by simp
next
  have reply: "stub_with_meta (client default_generator) ''hello''
                 (filtered_kwargs default_generator None) =
               Inr [(''text'', PStr ''hi''), (''meta'', PDict [(''tokens'', PInt 2)])]"
    by (simp add: stub_with_meta_def)
  have reply_text: "map_of [(''text'', PStr ''hi''), (''meta'', PDict [(''tokens'', PInt 2)])] ''text'' =
                Some (PStr ''hi'')"
    by simp
  from run_reply_shape [of stub_with_meta default_generator "''hello''" None, OF reply reply_text]
  show "returned (run stub_with_meta default_generator ''hello'' None) =
     Inr [(''replies'', PList [PStr ''hi'']), (''meta'', PDict [(''tokens'', PInt 2)])]"
    by simp
qed

text \<open>
  Claim C5. For every component and every per-call options mapping, a key that the per-call
  mapping binds has the per-call value in the merged mapping of line 68, whatever the
  defaults bind it to; if the key is allow-listed, that is also the value forwarded to the
  provider.
\<close>

theorem per_call_options_override_defaults:
  assumes "distinct (map fst call)" and "map_of call k = Some v"
  shows "map_of (merged_kwargs self (Some call)) k = Some v
         \<and> map_of (filtered_kwargs self (Some call)) k =
             (if k \<in> set ALLOWED_PARAMS then Some v else None)"
proof -
  from assms have merged: "map_of (merged_kwargs self (Some call)) k = Some v"
    by (simp add: merged_kwargs_def dict_display_def or_empty_Some map_of_unpack_items)
  have "map_of (filtered_kwargs self (Some call)) k =
          (if k \<in> set ALLOWED_PARAMS then map_of (merged_kwargs self (Some call)) k else None)"
    unfolding filtered_kwargs_def by (rule map_of_filter_keys)
  with merged show ?thesis
    by simp
qed

theorem per_call_options_override_defaults_witness:
  "map_of (generation_kwargs tuned_generator) ''max_tokens'' = Some (PInt 5)
   \<and> map_of (merged_kwargs tuned_generator (Some [(''max_tokens'', PInt 9)])) ''max_tokens'' =
       Some (PInt 9)
   \<and> map_of (filtered_kwargs tuned_generator (Some [(''max_tokens'', PInt 9)])) ''max_tokens'' =
       Some (PInt 9)"
proof -
  have keys: "distinct (map fst [(''max_tokens'', PInt 9)])"
    by simp
  have given: "map_of [(''max_tokens'', PInt 9)] ''max_tokens'' = Some (PInt 9)"
    by simp
  have stored: "map_of (generation_kwargs tuned_generator) ''max_tokens'' = Some (PInt 5)"
    by (simp add: tuned_generator_def default_generator_def)
  from per_call_options_override_defaults [OF keys given, of tuned_generator] stored
  show ?thesis
    by (simp add: ALLOWED_PARAMS_def)
qed

text \<open>
  Claim C8. For every prompt and options, when the provider's \<^verbatim>\<open>generate\<close> call raises,
  \<^verbatim>\<open>run\<close> raises the same exception and returns no mapping, and that call is the only
  one made: nothing is retried, replaced or wrapped.
\<close>

theorem run_propagates_provider_failure:
  assumes "generate (client self) prompt (filtered_kwargs self kw) = Inl e"
  shows "returned (run generate self prompt kw) = Inl e
         \<and> calls (run generate self prompt kw) = [Generate prompt (filtered_kwargs self kw)]"
  using assms by (simp add: run_def Let_def)

theorem run_propagates_provider_failure_witness:
  "returned (run stub_failing tuned_generator ''hello'' None) = Inl (ProviderError ''503'')
   \<and> calls (run stub_failing tuned_generator ''hello'' None) =
       [Generate ''hello'' [(''max_tokens'', PInt 5)]]"
proof -
  have fails: "stub_failing (client tuned_generator) ''hello''
                 (filtered_kwargs tuned_generator None) = Inl (ProviderError ''503'')"
    by (simp add: stub_failing_def)
  have fw: "filtered_kwargs tuned_generator None = [(''max_tokens'', PInt 5)]"
    by (simp add: filtered_kwargs_def merged_kwargs_def dict_display_def unpack_items_def
        or_empty_def ALLOWED_PARAMS_def tuned_generator_def default_generator_def)
  from run_propagates_provider_failure
         [of stub_failing tuned_generator "''hello''" None, OF fails]
  show ?thesis
    by (simp only: fw)
qed

text \<open>
  Claim C10. \<^verbatim>\<open>run\<close> leaves the component as it found it: after every call the default
  generation options, the model identifier, the credential, the streaming callback and the
  client handle are those from before the call, whatever the per-call options were, so a
  later call behaves as it would have without the earlier one.
\<close>

theorem run_leaves_component_unchanged:
  "self_after (run generate self prompt kw) = self
   \<and> generation_kwargs (self_after (run generate self prompt kw)) = generation_kwargs self
   \<and> model (self_after (run generate self prompt kw)) = model self
   \<and> api_key (self_after (run generate self prompt kw)) = api_key self
   \<and> streaming_callback (self_after (run generate self prompt kw)) = streaming_callback self
   \<and> client (self_after (run generate self prompt kw)) = client self
   \<and> run generate (self_after (run generate self prompt kw)) prompt' kw' =
       run generate self prompt' kw'"
  by (simp add: run_def Let_def)

section \<open>Exporting and importing the configuration\<close>

lemma to_dict_falsy_callback:
  "\<not> is_truthy (streaming_callback self) \<Longrightarrow>
   to_dict self =
     Inr (default_to_dict
           [(''model'', PStr (model self)),
            (''streaming_callback'', PNone),
            (''generation_kwargs'', PDict (generation_kwargs self)),
            (''api_key'', PDict (secret_to_dict (api_key self)))])"
  by (cases "streaming_callback self") (simp_all add: to_dict_def)

lemma to_dict_truthy_callback:
  "is_truthy (streaming_callback self) \<Longrightarrow>
   to_dict self = Inl (NameError ''serialize_callable'')"
  by (cases "streaming_callback self")
    (simp_all add: to_dict_def load_global_def module_globals_def)

lemma to_dict_ignores_client: "to_dict (self\<lparr>client := c\<rparr>) = to_dict self"
  by (simp add: to_dict_def split: option.splits sum.splits)

lemma init_Inr:
  "fst (init env k m cb gk) = Inr g \<Longrightarrow>
   \<exists>key. g = \<lparr>api_key = (case k of None \<Rightarrow> default_api_key | Some s \<Rightarrow> s),
               model = (case m of None \<Rightarrow> default_model | Some x \<Rightarrow> x),
               generation_kwargs = or_empty gk,
               streaming_callback = cb,
               client = new_client (case m of None \<Rightarrow> default_model | Some x \<Rightarrow> x) key\<rparr>"
  by (auto simp: init_def Let_def split: sum.splits)

text \<open>
  Claim C6. The mapping that \<^verbatim>\<open>to_dict\<close> produces holds the credential as its reference
  form: the \<^verbatim>\<open>api_key\<close> entry under \<^verbatim>\<open>init_parameters\<close> is what the credential's own
  \<^verbatim>\<open>to_dict\<close> gives. The resolved value lives only in the client handle, which
  \<^verbatim>\<open>to_dict\<close> does not read: replacing the handle changes nothing in the export, and two
  components built from the same arguments in environments that resolve the credential to
  different values export the same mapping.
\<close>

theorem to_dict_exports_reference_not_secret:
  "to_dict (self\<lparr>client := handle\<rparr>) = to_dict self
   \<and> (to_dict self = Inr d \<longrightarrow>
        (\<exists>ps. map_of d ''init_parameters'' = Some (PDict ps)
              \<and> map_of ps ''api_key'' = Some (PDict (secret_to_dict (api_key self)))))
   \<and> (fst (init env k m cb gk) = Inr g \<and> fst (init env' k m cb gk) = Inr g' \<longrightarrow>
        to_dict g = to_dict g')"
proof (intro conjI impI)
  show "to_dict (self\<lparr>client := handle\<rparr>) = to_dict self"
    by (rule to_dict_ignores_client)
next
  assume exported: "to_dict self = Inr d"
  show "\<exists>ps. map_of d ''init_parameters'' = Some (PDict ps)
              \<and> map_of ps ''api_key'' = Some (PDict (secret_to_dict (api_key self)))"
  proof (cases "is_truthy (streaming_callback self)")
    case False
    from to_dict_falsy_callback [OF False] exported show ?thesis
      by (auto simp: default_to_dict_def)
  next
    case True
    from to_dict_truthy_callback [OF True] exported show ?thesis
      by simp
  qed
next
  assume "fst (init env k m cb gk) = Inr g \<and> fst (init env' k m cb gk) = Inr g'"
  then have built: "fst (init env k m cb gk) = Inr g" and built': "fst (init env' k m cb gk) = Inr g'"
    by simp_all
  from init_Inr [OF built] obtain key where g: "g = \<lparr>api_key = (case k of None \<Rightarrow> default_api_key | Some s \<Rightarrow> s),
               model = (case m of None \<Rightarrow> default_model | Some x \<Rightarrow> x),
               generation_kwargs = or_empty gk,
               streaming_callback = cb,
               client = new_client (case m of None \<Rightarrow> default_model | Some x \<Rightarrow> x) key\<rparr>"
    by blast
  from init_Inr [OF built'] obtain key' where g': "g' = \<lparr>api_key = (case k of None \<Rightarrow> default_api_key | Some s \<Rightarrow> s),
               model = (case m of None \<Rightarrow> default_model | Some x \<Rightarrow> x),
               generation_kwargs = or_empty gk,
               streaming_callback = cb,
               client = new_client (case m of None \<Rightarrow> default_model | Some x \<Rightarrow> x) key'\<rparr>"
    by blast
  from g g' have "g' = g\<lparr>client := client g'\<rparr>"
    by simp
  then have "to_dict g' = to_dict (g\<lparr>client := client g'\<rparr>)"
    by simp
  then show "to_dict g = to_dict g'"
    by (simp only: to_dict_ignores_client)
qed

theorem to_dict_exports_reference_not_secret_witness:
  "fst (init (env_with_key ''s3cr3t'') None None None None) = Inr default_generator
   \<and> fst (init (env_with_key ''0ther'') None None None None) =
       Inr (default_generator\<lparr>client := new_client default_model ''0ther''\<rparr>)
   \<and> to_dict default_generator = Inr default_state
   \<and> to_dict (default_generator\<lparr>client := new_client default_model ''0ther''\<rparr>) =
       Inr default_state
   \<and> map_of default_state ''init_parameters'' =
       Some (PDict [(''model'', PStr ''mistral-7b-instruct-v0.2@fireworks-ai''),
              (''streaming_callback'', PNone),
              (''generation_kwargs'', PDict []),
              (''api_key'', PDict (secret_to_dict (EnvVarSecret ''UNIFY_API_KEY'')))])"
proof -
  have built: "fst (init (env_with_key ''s3cr3t'') None None None None) = Inr default_generator"
    by (simp add: init_def Let_def env_with_key_def default_generator_def default_api_key_def
        default_model_def new_client_def or_empty_def)
  have built': "fst (init (env_with_key ''0ther'') None None None None) =
       Inr (default_generator\<lparr>client := new_client default_model ''0ther''\<rparr>)"
    by (simp add: init_def Let_def env_with_key_def default_generator_def default_api_key_def
        default_model_def new_client_def or_empty_def)
  have exported: "to_dict default_generator = Inr default_state"
    by (simp add: to_dict_def default_to_dict_def default_generator_def default_state_def)
  note inst = to_dict_exports_reference_not_secret
      [where self = default_generator and d = default_state
         and env = "env_with_key ''s3cr3t''" and env' = "env_with_key ''0ther''"
         and k = None and m = None and cb = None and gk = None
         and g = default_generator
         and g' = "default_generator\<lparr>client := new_client default_model ''0ther''\<rparr>"]
  from inst built built' have same:
    "to_dict default_generator =
     to_dict (default_generator\<lparr>client := new_client default_model ''0ther''\<rparr>)"
    by blast
  from same exported have exported':
    "to_dict (default_generator\<lparr>client := new_client default_model ''0ther''\<rparr>) = Inr default_state"
    by simp
  have entry: "map_of default_state ''init_parameters'' =
       Some (PDict [(''model'', PStr ''mistral-7b-instruct-v0.2@fireworks-ai''),
              (''streaming_callback'', PNone),
              (''generation_kwargs'', PDict []),
              (''api_key'', PDict (secret_to_dict (EnvVarSecret ''UNIFY_API_KEY'')))])"
    by (simp add: default_state_def)
  from built built' exported exported' entry show ?thesis
    by blast
qed

text \<open>
  Claim C9, as stated, fails on the code: line 41 tests the truth value of the callback, not
  whether it is \<^verbatim>\<open>None\<close>. The component \<open>buffering_generator\<close> has a callback that is
  not \<^verbatim>\<open>None\<close>, and \<^verbatim>\<open>to_dict\<close> returns a mapping for it, the one it returns for the
  component without a callback.
\<close>

theorem to_dict_falsy_callback_counterexample:
  "streaming_callback buffering_generator = Some (Callable ''sinks.ChunkBuffer'' False)
   \<and> to_dict buffering_generator = Inr default_state
   \<and> \<not> (\<forall>self. (\<exists>d. to_dict self = Inr d) = (streaming_callback self = None))"
proof -
  have held: "streaming_callback buffering_generator = Some (Callable ''sinks.ChunkBuffer'' False)"
    by (simp add: buffering_generator_def)
  have exported: "to_dict buffering_generator = Inr default_state"
    by (simp add: to_dict_def default_to_dict_def buffering_generator_def
        default_generator_def default_state_def)
  have "\<not> (\<forall>self. (\<exists>d. to_dict self = Inr d) = (streaming_callback self = None))"
  proof
    assume "\<forall>self. (\<exists>d. to_dict self = Inr d) = (streaming_callback self = None)"
    then have "(\<exists>d. to_dict buffering_generator = Inr d) =
                 (streaming_callback buffering_generator = None)"
      by (rule spec)
    with held exported show False
      by simp
  qed
  with held exported show ?thesis
    by blast
qed

text \<open>
  Claim C9, amended. \<^verbatim>\<open>to_dict\<close> returns a mapping exactly when the streaming callback is
  falsy, that is \<^verbatim>\<open>None\<close> or a callable whose truth value is false. For a falsy callback
  line 41 skips the serializer and the mapping of lines 42 to 48 is returned, with
  \<^verbatim>\<open>None\<close> under \<^verbatim>\<open>streaming_callback\<close>. For a truthy callback, as every function is,
  line 41 reads the unbound name \<^verbatim>\<open>serialize_callable\<close> and \<^verbatim>\<open>to_dict\<close> raises
  \<^verbatim>\<open>NameError\<close> instead of returning.
\<close>

theorem to_dict_succeeds_only_with_falsy_callback:
  "(\<not> is_truthy (streaming_callback self) \<longrightarrow>
      to_dict self =
        Inr (default_to_dict
              [(''model'', PStr (model self)),
               (''streaming_callback'', PNone),
               (''generation_kwargs'', PDict (generation_kwargs self)),
               (''api_key'', PDict (secret_to_dict (api_key self)))]))
   \<and> (is_truthy (streaming_callback self) \<longrightarrow>
        to_dict self = Inl (NameError ''serialize_callable''))
   \<and> (\<exists>d. to_dict self = Inr d) = (\<not> is_truthy (streaming_callback self))"
proof (intro conjI impI)
  assume "\<not> is_truthy (streaming_callback self)"
  then show "to_dict self =
        Inr (default_to_dict
              [(''model'', PStr (model self)),
               (''streaming_callback'', PNone),
               (''generation_kwargs'', PDict (generation_kwargs self)),
               (''api_key'', PDict (secret_to_dict (api_key self)))])"
    by (rule to_dict_falsy_callback)
next
  assume "is_truthy (streaming_callback self)"
  then show "to_dict self = Inl (NameError ''serialize_callable'')"
    by (rule to_dict_truthy_callback)
next
  show "(\<exists>d. to_dict self = Inr d) = (\<not> is_truthy (streaming_callback self))"
  proof (cases "is_truthy (streaming_callback self)")
    case False
    with to_dict_falsy_callback [OF False] show ?thesis
      by simp
  next
    case True
    with to_dict_truthy_callback [OF True] show ?thesis
      by simp
  qed
qed

theorem to_dict_succeeds_only_with_falsy_callback_witness:
  "\<not> is_truthy (streaming_callback default_generator)
   \<and> to_dict default_generator = Inr default_state
   \<and> \<not> is_truthy (streaming_callback buffering_generator)
   \<and> to_dict buffering_generator = Inr default_state
   \<and> is_truthy (streaming_callback streaming_generator)
   \<and> to_dict streaming_generator = Inl (NameError ''serialize_callable'')"
proof -
  have absent: "\<not> is_truthy (streaming_callback default_generator)"
    by (simp add: default_generator_def)
  have falsy: "\<not> is_truthy (streaming_callback buffering_generator)"
    by (simp add: buffering_generator_def)
  have present: "is_truthy (streaming_callback streaming_generator)"
    by (simp add: streaming_generator_def)
  from to_dict_succeeds_only_with_falsy_callback [of default_generator] absent
  have "to_dict default_generator =
        Inr (default_to_dict
              [(''model'', PStr (model default_generator)),
               (''streaming_callback'', PNone),
               (''generation_kwargs'', PDict (generation_kwargs default_generator)),
               (''api_key'', PDict (secret_to_dict (api_key default_generator)))])"
    by blast
  then have exported: "to_dict default_generator = Inr default_state"
    by (simp add: default_to_dict_def default_generator_def default_state_def)
  from to_dict_succeeds_only_with_falsy_callback [of buffering_generator] falsy
  have "to_dict buffering_generator =
        Inr (default_to_dict
              [(''model'', PStr (model buffering_generator)),
               (''streaming_callback'', PNone),
               (''generation_kwargs'', PDict (generation_kwargs buffering_generator)),
               (''api_key'', PDict (secret_to_dict (api_key buffering_generator)))])"
    by blast
  then have exported': "to_dict buffering_generator = Inr default_state"
    by (simp add: default_to_dict_def buffering_generator_def default_generator_def
        default_state_def)
  from to_dict_succeeds_only_with_falsy_callback [of streaming_generator] present
  have raised: "to_dict streaming_generator = Inl (NameError ''serialize_callable'')"
    by blast
  from absent exported falsy exported' present raised show ?thesis
    by blast
qed

text \<open>
  Claim C2, evaluated on the code. The component that \<^verbatim>\<open>UnifyGenerator()\<close> builds exports
  the mapping \<open>default_state\<close>; \<^verbatim>\<open>from_dict\<close> on that mapping raises \<^verbatim>\<open>NameError\<close>
  at line 55 and returns no component, so nothing comes back from the round trip.
\<close>

theorem from_dict_of_exported_state_raises:
  "to_dict default_generator = Inr default_state
   \<and> from_dict rest default_state = Inl (NameError ''deserialize_secrets_inplace'')"
proof
  show "to_dict default_generator = Inr default_state"
    by (simp add: to_dict_def default_to_dict_def default_generator_def default_state_def)
next
  show "from_dict rest default_state = Inl (NameError ''deserialize_secrets_inplace'')"
    by (rule from_dict_raises_NameError)
qed

text \<open>
  Claim C3, evaluated on the code. On a state whose \<^verbatim>\<open>init_parameters\<close> has no
  \<^verbatim>\<open>api_key\<close> entry, \<^verbatim>\<open>from_dict\<close> raises the \<^verbatim>\<open>NameError\<close> of line 55, the same
  exception it raises on every state, before it has looked at the state.
\<close>

theorem from_dict_without_credential_raises_NameError:
  "map_of state_without_api_key ''init_parameters'' =
     Some (PDict [(''model'', PStr ''some-model@some-provider'')])
   \<and> from_dict rest state_without_api_key = Inl (NameError ''deserialize_secrets_inplace'')"
proof
  show "map_of state_without_api_key ''init_parameters'' =
     Some (PDict [(''model'', PStr ''some-model@some-provider'')])"
    by (simp add: state_without_api_key_def)
next
  show "from_dict rest state_without_api_key = Inl (NameError ''deserialize_secrets_inplace'')"
    by (rule from_dict_raises_NameError)
qed

section \<open>Construction\<close>

text \<open>
  Claim C7. With no credential supplied and the variable \<^verbatim>\<open>UNIFY_API_KEY\<close> unset,
  \<^verbatim>\<open>__init__\<close> raises the exception of the credential resolution and has made no call
  to the client library. Construction raises an exception exactly when resolving the
  credential raises it, and whenever construction raises, the client library has not been
  called.
\<close>

theorem init_fails_only_on_credential_resolution:
  "(env ''UNIFY_API_KEY'' = None \<longrightarrow>
      init env None m cb gk = (Inl (ValueError ''UNIFY_API_KEY''), []))
   \<and> (fst (init env k m cb gk) = Inl e) =
       (resolve_value env (case k of None \<Rightarrow> default_api_key | Some s \<Rightarrow> s) = Inl e)
   \<and> (fst (init env k m cb gk) = Inl e \<longrightarrow> snd (init env k m cb gk) = [])"
proof (intro conjI impI)
  assume "env ''UNIFY_API_KEY'' = None"
  then show "init env None m cb gk = (Inl (ValueError ''UNIFY_API_KEY''), [])"
    by (simp add: init_def Let_def default_api_key_def)
next
  show "(fst (init env k m cb gk) = Inl e) =
       (resolve_value env (case k of None \<Rightarrow> default_api_key | Some s \<Rightarrow> s) = Inl e)"
    by (simp add: init_def Let_def split: sum.splits)
next
  assume "fst (init env k m cb gk) = Inl e"
  then show "snd (init env k m cb gk) = []"
    by (simp add: init_def Let_def split: sum.splits)
qed

theorem init_fails_only_on_credential_resolution_witness:
  "env_unset ''UNIFY_API_KEY'' = None
   \<and> init env_unset None None None None = (Inl (ValueError ''UNIFY_API_KEY''), [])
   \<and> resolve_value (env_with_key ''s3cr3t'') default_api_key = Inr ''s3cr3t''
   \<and> fst (init (env_with_key ''s3cr3t'') None None None None) \<noteq> Inl (ValueError ''UNIFY_API_KEY'')"
proof -
  have unset: "env_unset ''UNIFY_API_KEY'' = None"
    by (simp add: env_unset_def)
  note inst = init_fails_only_on_credential_resolution
      [where env = env_unset and m = None and cb = None and gk = None]
  from inst unset have fails: "init env_unset None None None None = (Inl (ValueError ''UNIFY_API_KEY''), [])"
    by blast
  have resolved: "resolve_value (env_with_key ''s3cr3t'') default_api_key = Inr ''s3cr3t''"
    by (simp add: env_with_key_def default_api_key_def)
  note inst' = init_fails_only_on_credential_resolution
      [where env = "env_with_key ''s3cr3t''" and k = None and m = None and cb = None
         and gk = None and e = "ValueError ''UNIFY_API_KEY''"]
  from inst' resolved
  have built: "fst (init (env_with_key ''s3cr3t'') None None None None) \<noteq> Inl (ValueError ''UNIFY_API_KEY'')"
    by simp
  from unset fails resolved built show ?thesis
    by blast
qed

end
